theory Spec2Isabelle
  imports Complex_Main
begin

section \<open>Python arithmetic\<close>

text \<open>
  Python floats are read as real numbers and \<^verbatim>\<open>math.pi\<close> as \<^term>\<open>pi\<close>. The literals
  \<^verbatim>\<open>0.0000001\<close> and \<^verbatim>\<open>0.000000001\<close> are the rationals \<open>1 / 10 ^ 7\<close> and \<open>1 / 10 ^ 9\<close>.

  The two exceptions the robot model can raise: the \<^verbatim>\<open>Exception('a1 out of limit: ...')\<close>
  of \<^verbatim>\<open>check_angles\<close> (joint name and offending value) and the
  \<^verbatim>\<open>ZeroDivisionError\<close> of a float division by zero.
\<close>

datatype error = OutOfLimit string real | ZeroDivisionError

text \<open>Python's \<^verbatim>\<open>p / q\<close> on floats: raises when the divisor is zero.\<close>

definition truediv :: "real \<Rightarrow> real \<Rightarrow> error + real" where
  "truediv p q = (if q = 0 then Inl ZeroDivisionError else Inr (p / q))"

text \<open>
  Python's \<^verbatim>\<open>p % q\<close> on floats: the remainder carries the sign of the divisor. The
  source only takes remainders by the constants \<^verbatim>\<open>2 * pi\<close> and \<^verbatim>\<open>-2 * pi\<close>, which
  are not zero.
\<close>

definition float_mod :: "real \<Rightarrow> real \<Rightarrow> real" where
  "float_mod p q = p - q * of_int \<lfloor>p / q\<rfloor>"

text \<open>
  \<^verbatim>\<open>random.uniform(lo, hi)\<close> is \<^verbatim>\<open>lo + (hi - lo) * random()\<close>; the draw \<open>u\<close> of
  \<^verbatim>\<open>random()\<close>, a number in \<open>[0, 1)\<close>, is an argument of the model.
\<close>

definition uniform :: "real \<Rightarrow> real \<Rightarrow> real \<Rightarrow> real" where
  "uniform lo hi u = lo + (hi - lo) * u"

section \<open>The swimming robot (Robots/HoneySwimmer\_v2.py)\<close>

record robot =
  body_x :: real
  x :: real
  y :: real
  theta :: real
  a1 :: real
  a2 :: real
  a1dot :: real
  a2dot :: real
  time :: real
  t_interval :: real
  timestep :: real
  L :: real
  k :: real
  state :: "real \<times> real"

text \<open>\<^verbatim>\<open>__init__\<close>; the defaults of the source are supplied by \<open>SwimmingRobot_default\<close>.\<close>

definition SwimmingRobot ::
  "real \<Rightarrow> real \<Rightarrow> real \<Rightarrow> real \<Rightarrow> real \<Rightarrow> real \<Rightarrow> real \<Rightarrow> real \<Rightarrow> real \<Rightarrow> real \<Rightarrow> robot" where
  "SwimmingRobot bx px py th j1 j2 link_length kv ti ts =
     \<lparr> body_x = bx, x = px, y = py, theta = th, a1 = j1, a2 = j2,
       a1dot = 0, a2dot = 0, time = 0,
       t_interval = ti, timestep = ts, L = link_length, k = kv,
       state = (j1, j2) \<rparr>"

definition SwimmingRobot_default :: robot where
  "SwimmingRobot_default = SwimmingRobot 0 0 0 0 (- pi / 4) (pi / 4) 2 1 (1 / 4) 1"

definition set_state :: "real \<Rightarrow> real \<Rightarrow> robot \<Rightarrow> robot" where
  "set_state j1 j2 r = r\<lparr> a1 := j1, a2 := j2, state := (j1, j2) \<rparr>"

definition get_position :: "robot \<Rightarrow> real \<times> real" where
  "get_position r = (x r, y r)"

text \<open>
  \<^verbatim>\<open>randomize_state\<close>: \<open>u1\<close> and \<open>u2\<close> are the two draws of the random generator. The
  body of the source never reads its flag.
\<close>

definition randomize_state :: "real \<Rightarrow> real \<Rightarrow> bool \<Rightarrow> robot \<Rightarrow> (real \<times> real) \<times> robot" where
  "randomize_state u1 u2 enforce_opposite_angle_signs r =
     (let r1 = r\<lparr> a1 := uniform (- pi / 2) (pi / 2) u1 \<rparr>;
          r2 = r1\<lparr> a2 := uniform (- pi / 2) (pi / 2) u2 \<rparr>;
          r3 = r2\<lparr> state := (a1 r2, a2 r2) \<rparr>
      in (state r3, r3))"

subsection \<open>Integration\<close>

text \<open>
  \<^verbatim>\<open>scipy.integrate.odeint\<close> is a library outside the repository. It enters the model
  as a parameter: \<open>solver link_length v0 duration action\<close> is the last sample
  \<^verbatim>\<open>sol[-1]\<close> of the trajectory that starts at
  \<open>v0 = (body_x, x, y, theta, a1, a2)\<close> and follows \<^verbatim>\<open>self.robot\<close> with the joint
  velocities \<open>action\<close>.
\<close>

type_synonym vec6 = "real \<times> real \<times> real \<times> real \<times> real \<times> real"

type_synonym odeint = "real \<Rightarrow> vec6 \<Rightarrow> real \<Rightarrow> real \<times> real \<Rightarrow> vec6"

definition perform_integration :: "odeint \<Rightarrow> real \<times> real \<Rightarrow> real \<Rightarrow> robot \<Rightarrow> vec6" where
  "perform_integration solver action duration r =
     (if duration = 0 then (body_x r, x r, y r, theta r, a1 r, a2 r)
      else solver (L r) (body_x r, x r, y r, theta r, a1 r, a2 r) duration action)"

subsection \<open>Angle ranges\<close>

text \<open>
  The wrapping code between reading and writing back the angle, textually the same in
  \<^verbatim>\<open>SwimmingRobot.enforce_angle_range\<close> and \<^verbatim>\<open>DeepRobot.enforce_theta_range\<close>.
\<close>

definition wrap_angle :: "real \<Rightarrow> real" where
  "wrap_angle angle =
     (if angle > pi then
        (let angle1 = float_mod angle (2 * pi)
         in if angle1 > pi then angle1 - 2 * pi else angle1)
      else if angle < - pi then
        (let angle1 = float_mod angle (- 2 * pi)
         in if angle1 < - pi then angle1 + 2 * pi else angle1)
      else angle)"

definition enforce_angle_range :: "string \<Rightarrow> robot \<Rightarrow> robot" where
  "enforce_angle_range angle_name r =
     (let angle = (if angle_name = ''theta'' then theta r
                   else if angle_name = ''a1'' then a1 r
                   else a2 r);
          angle1 = wrap_angle angle
      in if angle_name = ''theta'' then r\<lparr> theta := angle1 \<rparr>
         else if angle_name = ''a1'' then r\<lparr> a1 := angle1 \<rparr>
         else if angle_name = ''a2'' then r\<lparr> a2 := angle1 \<rparr>
         else r)"

text \<open>
  \<^verbatim>\<open>DeepRobot.enforce_theta_range\<close> (OpenAiGym, DeepRobot\_env\_Discrete.py) reads and
  writes one field, \<^verbatim>\<open>self.theta\<close>: the model maps the old heading to the new one.
\<close>

definition enforce_theta_range :: "real \<Rightarrow> real" where
  "enforce_theta_range th =
     (let angle = th in
      if angle > pi then
        (let angle1 = float_mod angle (2 * pi)
         in if angle1 > pi then angle1 - 2 * pi else angle1)
      else if angle < - pi then
        (let angle1 = float_mod angle (- 2 * pi)
         in if angle1 < - pi then angle1 + 2 * pi else angle1)
      else angle)"

definition round_angles_to_limits :: "real \<Rightarrow> robot \<Rightarrow> robot" where
  "round_angles_to_limits tolerance r =
     (let r1 = (if \<bar>a1 r - pi / 2\<bar> < tolerance then r\<lparr> a1 := pi / 2 \<rparr>
                else if \<bar>a1 r + pi / 2\<bar> < tolerance then r\<lparr> a1 := - pi / 2 \<rparr>
                else r)
      in if \<bar>a2 r1 + pi / 2\<bar> < tolerance then r1\<lparr> a2 := - pi / 2 \<rparr>
         else if \<bar>a2 r1 - pi / 2\<bar> < tolerance then r1\<lparr> a2 := pi / 2 \<rparr>
         else r1)"

definition check_angles :: "robot \<Rightarrow> error + unit" where
  "check_angles r =
     (if a1 r < - pi / 2 \<or> a1 r > pi / 2 then Inl (OutOfLimit ''a1'' (a1 r))
      else if a2 r < - pi / 2 \<or> a2 r > pi / 2 then Inl (OutOfLimit ''a2'' (a2 r))
      else Inr ())"

definition update_params :: "vec6 \<Rightarrow> bool \<Rightarrow> robot \<Rightarrow> robot" where
  "update_params v enforce_angle_limits r =
     (case v of (bx, px, py, th, j1, j2) \<Rightarrow>
        let r1 = r\<lparr> body_x := bx, x := px, y := py, theta := th \<rparr>;
            r2 = enforce_angle_range ''theta'' r1;
            r3 = r2\<lparr> a1 := j1 \<rparr>;
            r4 = (if \<not> enforce_angle_limits then enforce_angle_range ''a1'' r3 else r3);
            r5 = r4\<lparr> a2 := j2 \<rparr>;
            r6 = (if \<not> enforce_angle_limits then enforce_angle_range ''a2'' r5 else r5)
        in round_angles_to_limits (1 / 10 ^ 9) r6)"

subsection \<open>Realized joint velocities\<close>

text \<open>
  \<^verbatim>\<open>update_alpha_dots\<close>. Every caller passes \<open>t1\<close>; \<open>t2\<close> is \<open>None\<close> for a single move.
  The exception of a division leaves the robot as it was, so the error carries no state.
\<close>

definition update_alpha_dots ::
  "real \<Rightarrow> real \<Rightarrow> real \<Rightarrow> real \<Rightarrow> real \<Rightarrow> real option \<Rightarrow> robot \<Rightarrow> error + robot" where
  "update_alpha_dots a1dot1 a2dot1 t1 a1dot2 a2dot2 t2opt r =
     (let t2 = (case t2opt of None \<Rightarrow> 0 | Some d \<Rightarrow> d) in
      case (if t1 + t2 < t_interval r + timestep r
            then truediv (t1 + t2) (t_interval r * timestep r) else Inr 1) of
        Inl e \<Rightarrow> Inl e
      | Inr c3 \<Rightarrow>
         (case (if t1 + t2 = 0 then Inr (0, 0)
                else (case truediv t1 (t1 + t2) of
                        Inl e \<Rightarrow> Inl e
                      | Inr c1 \<Rightarrow> (case truediv t2 (t1 + t2) of
                                      Inl e \<Rightarrow> Inl e
                                    | Inr c2 \<Rightarrow> Inr (c1, c2)))) of
            Inl e \<Rightarrow> Inl e
          | Inr (c1, c2) \<Rightarrow>
              Inr (r\<lparr> a1dot := (c1 * a1dot1 + c2 * a1dot2) * c3,
                      a2dot := (c1 * a2dot1 + c2 * a2dot2) * c3 \<rparr>)))"

subsection \<open>The move\<close>

text \<open>
  The bound-crossing times of \<^verbatim>\<open>move\<close> (the two \<^verbatim>\<open>if\<close>/\<^verbatim>\<open>elif\<close> chains after
  \<^verbatim>\<open>a1_t, a2_t = t, t\<close>), one function per joint: \<open>v\<close> is the commanded velocity of
  the joint and \<open>t\<close> the nominal duration.
\<close>

definition a1_t :: "real \<Rightarrow> real \<Rightarrow> robot \<Rightarrow> error + real" where
  "a1_t v t r =
     (let e1 = a1 r + v * t
      in if e1 < - pi / 2 then truediv (- pi / 2 - a1 r) v
         else if e1 > pi / 2 then truediv (0 - a1 r) v
         else Inr t)"

definition a2_t :: "real \<Rightarrow> real \<Rightarrow> robot \<Rightarrow> error + real" where
  "a2_t v t r =
     (let e2 = a2 r + v * t
      in if e2 < - pi / 2 then truediv (0 - a2 r) v
         else if e2 > pi / 2 then truediv (pi / 2 - a2 r) v
         else Inr t)"

text \<open>
  The end of \<^verbatim>\<open>move\<close>: once \<^verbatim>\<open>update_alpha_dots\<close> has returned, the joint angles are
  stored in \<^verbatim>\<open>self.state\<close> and returned. When it raised, the robot stays as the last
  commit left it (\<open>r\<close>).
\<close>

definition store_state :: "robot \<Rightarrow> error + robot \<Rightarrow> (error + real \<times> real) \<times> robot" where
  "store_state r res =
     (case res of
        Inl e \<Rightarrow> (Inl e, r)
      | Inr r1 \<Rightarrow> (let r2 = r1\<lparr> state := (a1 r1, a2 r1) \<rparr> in (Inr (state r2), r2)))"

text \<open>
  \<^verbatim>\<open>move\<close> returns the outcome (the exception or the returned joint angles) and the
  robot as the call leaves it, also when it raises.
\<close>

definition move ::
  "odeint \<Rightarrow> real \<times> real \<Rightarrow> real \<Rightarrow> bool \<Rightarrow> robot \<Rightarrow> (error + real \<times> real) \<times> robot" where
  "move solver action ts enforce_angle_limits r =
     (let r0 = r\<lparr> timestep := ts \<rparr> in
      case (if enforce_angle_limits then check_angles r0 else Inr ()) of
        Inl e \<Rightarrow> (Inl e, r0)
      | Inr _ \<Rightarrow>
         (case action of (v1, v2) \<Rightarrow>
            let t = timestep r0 * t_interval r0 in
            if enforce_angle_limits then
              (case a1_t v1 t r0 of
                 Inl e \<Rightarrow> (Inl e, r0)
               | Inr t_a1 \<Rightarrow>
                  (case a2_t v2 t r0 of
                     Inl e \<Rightarrow> (Inl e, r0)
                   | Inr t_a2 \<Rightarrow>
                      if \<bar>t_a1 - t_a2\<bar> > 1 / 10 ^ 7 then
                        (let t1 = min t_a1 t_a2;
                             r1 = update_params (perform_integration solver action t1 r0) True r0
                         in if t_a2 > t_a1 then
                              (let t2 = t_a2 - t_a1;
                                   r2 = update_params
                                          (perform_integration solver (0, v2) t2 r1) True r1
                               in store_state r2 (update_alpha_dots v1 v2 t1 0 v2 (Some t2) r2))
                            else
                              (let t2 = t_a1 - t_a2;
                                   r2 = update_params
                                          (perform_integration solver (v1, 0) t2 r1) True r1
                               in store_state r2 (update_alpha_dots v1 v2 t1 v1 0 (Some t2) r2)))
                      else
                        (let t0 = (if t \<noteq> t_a1 then t_a1 else t);
                             r1 = update_params (perform_integration solver action t0 r0) True r0
                         in store_state r1 (update_alpha_dots v1 v2 t0 0 0 None r1))))
            else
              (let r1 = update_params (perform_integration solver action t r0) False r0
               in store_state r1 (update_alpha_dots v1 v2 t 0 0 None r1))))"

section \<open>Solvers for concrete runs\<close>

text \<open>
  The last two channels of the system integrated by \<^verbatim>\<open>odeint\<close> are
  \<^verbatim>\<open>da1/dt = da1\<close> and \<^verbatim>\<open>da2/dt = da2\<close> with constant right-hand sides: their exact
  solution after the duration \<open>d\<close> is \<open>a1 + da1 * d\<close> and \<open>a2 + da2 * d\<close>.
  \<open>exact_joints\<close> says that a solver returns this solution on the joint channels,
  whatever it returns for the pose.
\<close>

definition exact_joints :: "odeint \<Rightarrow> bool" where
  "exact_joints solver =
     (\<forall>l bx px py th j1 j2 d v1 v2.
        snd (snd (snd (snd (solver l (bx, px, py, th, j1, j2) d (v1, v2)))))
          = (j1 + v1 * d, j2 + v2 * d))"

text \<open>
  A solver to run the model on concrete inputs: exact on the joint channels, and the
  pose channels (whose right-hand side, the Jacobian of \<^verbatim>\<open>J\<close>, has no closed-form
  flow) stay where they start. For the action \<open>(0, 0)\<close> the whole right-hand side is
  zero and this is the exact solution on every channel.
\<close>

definition joints_only_solver :: odeint where
  "joints_only_solver link_length v duration action =
     (case v of (bx, px, py, th, j1, j2) \<Rightarrow>
        case action of (v1, v2) \<Rightarrow>
          (bx, px, py, th, j1 + v1 * duration, j2 + v2 * duration))"

section \<open>Angle wrapping\<close>

lemma float_mod_pos_range:
  assumes "0 < q"
  shows "0 \<le> float_mod p q" and "float_mod p q < q"
proof -
  have fl: "of_int \<lfloor>p / q\<rfloor> \<le> p / q" "p / q < of_int \<lfloor>p / q\<rfloor> + 1"
    by linarith+
  from assms fl(1) have "of_int \<lfloor>p / q\<rfloor> * q \<le> p"
    by (rule pos_le_divide_eq [THEN iffD1])
  then show "0 \<le> float_mod p q"
    by (simp add: float_mod_def mult.commute)
  from assms fl(2) have "p < (of_int \<lfloor>p / q\<rfloor> + 1) * q"
    by (rule pos_divide_less_eq [THEN iffD1])
  then show "float_mod p q < q"
    by (simp add: float_mod_def algebra_simps)
qed

lemma float_mod_neg_range:
  assumes "q < 0"
  shows "q < float_mod p q" and "float_mod p q \<le> 0"
proof -
  have eq: "float_mod p q = - float_mod (- p) (- q)"
    by (simp add: float_mod_def)
  from assms have "0 < - q" by simp
  from float_mod_pos_range [OF this, of "- p"] show "q < float_mod p q" and "float_mod p q \<le> 0"
    unfolding eq by linarith+
qed

lemma wrap_angle_range: "- pi \<le> wrap_angle w \<and> wrap_angle w \<le> pi"
proof -
  have p: "0 \<le> float_mod w (2 * pi)" "float_mod w (2 * pi) < 2 * pi"
    using float_mod_pos_range [of "2 * pi" w] by simp_all
  have n: "- 2 * pi < float_mod w (- 2 * pi)" "float_mod w (- 2 * pi) \<le> 0"
    using float_mod_neg_range [of "- 2 * pi" w] by simp_all
  show ?thesis
    using p n pi_gt_zero by (simp add: wrap_angle_def Let_def)
qed

lemma wrap_angle_id: "- pi \<le> w \<Longrightarrow> w \<le> pi \<Longrightarrow> wrap_angle w = w"
  by (simp add: wrap_angle_def)

lemma enforce_theta_range_wrap: "enforce_theta_range w = wrap_angle w"
  by (simp add: enforce_theta_range_def wrap_angle_def Let_def)

lemma enforce_angle_range_fields:
  "enforce_angle_range ''theta'' r = r\<lparr> theta := wrap_angle (theta r) \<rparr>"
  "enforce_angle_range ''a1'' r = r\<lparr> a1 := wrap_angle (a1 r) \<rparr>"
  "enforce_angle_range ''a2'' r = r\<lparr> a2 := wrap_angle (a2 r) \<rparr>"
  by (simp_all add: enforce_angle_range_def)

text \<open>
  C10. The angle-wrapping routine returns a value of the closed interval \<open>[-pi, pi]\<close>, it
  is the identity on every input of that interval, \<open>-pi\<close> is a fixed point, and wrapping
  twice is wrapping once. This is stated of the wrapping code, of
  \<^verbatim>\<open>DeepRobot.enforce_theta_range\<close> on the heading, and of
  \<^verbatim>\<open>SwimmingRobot.enforce_angle_range\<close>, which replaces the named field by its wrapped
  value and changes nothing else.
\<close>

theorem wrap_angle_closed_interval_idempotent:
  "- pi \<le> wrap_angle w \<and> wrap_angle w \<le> pi
   \<and> (- pi \<le> w \<and> w \<le> pi \<longrightarrow> wrap_angle w = w)
   \<and> wrap_angle (- pi) = - pi
   \<and> wrap_angle (wrap_angle w) = wrap_angle w
   \<and> - pi \<le> enforce_theta_range w \<and> enforce_theta_range w \<le> pi
   \<and> (- pi \<le> w \<and> w \<le> pi \<longrightarrow> enforce_theta_range w = w)
   \<and> enforce_theta_range (- pi) = - pi
   \<and> enforce_theta_range (enforce_theta_range w) = enforce_theta_range w
   \<and> enforce_angle_range ''theta'' r = r\<lparr> theta := wrap_angle (theta r) \<rparr>
   \<and> enforce_angle_range ''a1'' r = r\<lparr> a1 := wrap_angle (a1 r) \<rparr>
   \<and> enforce_angle_range ''a2'' r = r\<lparr> a2 := wrap_angle (a2 r) \<rparr>
   \<and> theta (enforce_angle_range ''theta'' r) = wrap_angle (theta r)
   \<and> a1 (enforce_angle_range ''a1'' r) = wrap_angle (a1 r)
   \<and> a2 (enforce_angle_range ''a2'' r) = wrap_angle (a2 r)
   \<and> enforce_angle_range ''theta'' (enforce_angle_range ''theta'' r)
       = enforce_angle_range ''theta'' r
   \<and> enforce_angle_range ''a1'' (enforce_angle_range ''a1'' r) = enforce_angle_range ''a1'' r
   \<and> enforce_angle_range ''a2'' (enforce_angle_range ''a2'' r) = enforce_angle_range ''a2'' r"
proof -
  have rng: "- pi \<le> wrap_angle v" "wrap_angle v \<le> pi" for v
    using wrap_angle_range [of v] by simp_all
  have idem: "wrap_angle (wrap_angle v) = wrap_angle v" for v
    using rng by (rule wrap_angle_id)
  have fixed: "wrap_angle (- pi) = - pi"
    by (rule wrap_angle_id) simp_all
  have ident: "- pi \<le> w \<and> w \<le> pi \<longrightarrow> wrap_angle w = w"
    by (simp add: wrap_angle_id)
  have wrap: "- pi \<le> wrap_angle w \<and> wrap_angle w \<le> pi
     \<and> (- pi \<le> w \<and> w \<le> pi \<longrightarrow> wrap_angle w = w)
     \<and> wrap_angle (- pi) = - pi
     \<and> wrap_angle (wrap_angle w) = wrap_angle w"
    using rng [of w] idem [of w] fixed ident by blast
  have deep: "- pi \<le> enforce_theta_range w \<and> enforce_theta_range w \<le> pi
     \<and> (- pi \<le> w \<and> w \<le> pi \<longrightarrow> enforce_theta_range w = w)
     \<and> enforce_theta_range (- pi) = - pi
     \<and> enforce_theta_range (enforce_theta_range w) = enforce_theta_range w"
    unfolding enforce_theta_range_wrap by (rule wrap)
  have swim: "enforce_angle_range ''theta'' r = r\<lparr> theta := wrap_angle (theta r) \<rparr>
     \<and> enforce_angle_range ''a1'' r = r\<lparr> a1 := wrap_angle (a1 r) \<rparr>
     \<and> enforce_angle_range ''a2'' r = r\<lparr> a2 := wrap_angle (a2 r) \<rparr>
     \<and> theta (enforce_angle_range ''theta'' r) = wrap_angle (theta r)
     \<and> a1 (enforce_angle_range ''a1'' r) = wrap_angle (a1 r)
     \<and> a2 (enforce_angle_range ''a2'' r) = wrap_angle (a2 r)"
    by (simp add: enforce_angle_range_fields)
  have twice: "enforce_angle_range ''theta'' (enforce_angle_range ''theta'' r)
       = enforce_angle_range ''theta'' r
     \<and> enforce_angle_range ''a1'' (enforce_angle_range ''a1'' r) = enforce_angle_range ''a1'' r
     \<and> enforce_angle_range ''a2'' (enforce_angle_range ''a2'' r) = enforce_angle_range ''a2'' r"
    by (simp add: enforce_angle_range_fields idem)
  from wrap deep swim twice show ?thesis
    by (intro conjI) blast+
qed

theorem wrap_angle_closed_interval_idempotent_witness:
  "- pi \<le> (0 :: real) \<and> (0 :: real) \<le> pi
   \<and> wrap_angle 0 = 0 \<and> enforce_theta_range 0 = 0
   \<and> wrap_angle (- pi) = - pi \<and> enforce_theta_range (- pi) = - pi
   \<and> theta (enforce_angle_range ''theta'' SwimmingRobot_default) = 0"
proof -
  have in_range: "- pi \<le> (0 :: real)" "(0 :: real) \<le> pi"
    using pi_ge_two by simp_all
  have th: "theta SwimmingRobot_default = 0"
    by (simp add: SwimmingRobot_default_def SwimmingRobot_def)
  show ?thesis
    using wrap_angle_closed_interval_idempotent [of 0 SwimmingRobot_default] in_range th
    by simp
qed

section \<open>What each step of a move leaves alone\<close>

lemma check_angles_timestep [simp]: "check_angles (r\<lparr> timestep := ts \<rparr>) = check_angles r"
  by (simp add: check_angles_def)

lemma check_angles_Inr:
  "check_angles r = Inr u \<longleftrightarrow>
     - pi / 2 \<le> a1 r \<and> a1 r \<le> pi / 2 \<and> - pi / 2 \<le> a2 r \<and> a2 r \<le> pi / 2"
  by (auto simp add: check_angles_def)

lemma time_enforce_angle_range [simp]: "time (enforce_angle_range nm r) = time r"
  by (simp add: enforce_angle_range_def Let_def)

lemma time_round_angles_to_limits [simp]: "time (round_angles_to_limits tol r) = time r"
  by (simp add: round_angles_to_limits_def Let_def)

lemma time_update_params [simp]: "time (update_params v e r) = time r"
  by (simp add: update_params_def Let_def split: prod.splits)

lemma time_update_alpha_dots:
  "update_alpha_dots p1 q1 t1 p2 q2 t2 r = Inr r1 \<Longrightarrow> time r1 = time r"
  by (auto simp add: update_alpha_dots_def Let_def split: sum.splits prod.splits if_splits)

lemma time_store_state:
  "(\<And>r1. res = Inr r1 \<Longrightarrow> time r1 = time r) \<Longrightarrow> time (snd (store_state r res)) = time r"
  by (cases res) (simp_all add: store_state_def Let_def)

lemma time_store_alpha [simp]:
  "time (snd (store_state r (update_alpha_dots p1 q1 t1 p2 q2 t2 r))) = time r"
  by (rule time_store_state) (rule time_update_alpha_dots)

lemma time_move: "time (snd (move solver action ts enforce_angle_limits r)) = time r"
  by (simp add: move_def Let_def split: sum.splits prod.splits)

lemma theta_enforce_theta: "theta (enforce_angle_range ''theta'' r) = wrap_angle (theta r)"
  by (simp add: enforce_angle_range_def)

lemma theta_enforce_joint [simp]:
  "theta (enforce_angle_range ''a1'' r) = theta r"
  "theta (enforce_angle_range ''a2'' r) = theta r"
  by (simp_all add: enforce_angle_range_def)

lemma theta_round_angles_to_limits [simp]: "theta (round_angles_to_limits tol r) = theta r"
  by (simp add: round_angles_to_limits_def Let_def)

lemma theta_update_params: "theta (update_params v e r) = wrap_angle (fst (snd (snd (snd v))))"
  by (simp add: update_params_def Let_def theta_enforce_theta split: prod.splits)

lemma theta_update_alpha_dots:
  "update_alpha_dots p1 q1 t1 p2 q2 t2 r = Inr r1 \<Longrightarrow> theta r1 = theta r"
  by (auto simp add: update_alpha_dots_def Let_def split: sum.splits prod.splits if_splits)

lemma theta_store_alpha [simp]:
  "theta (snd (store_state r (update_alpha_dots p1 q1 t1 p2 q2 t2 r))) = theta r"
  by (cases "update_alpha_dots p1 q1 t1 p2 q2 t2 r")
     (simp_all add: store_state_def Let_def theta_update_alpha_dots)

lemma round_fields [simp]:
  "t_interval (round_angles_to_limits tol r) = t_interval r"
  "timestep (round_angles_to_limits tol r) = timestep r"
  by (simp_all add: round_angles_to_limits_def Let_def)

lemma round_a1:
  "a1 (round_angles_to_limits tol r) =
     (if \<bar>a1 r - pi / 2\<bar> < tol then pi / 2
      else if \<bar>a1 r + pi / 2\<bar> < tol then - pi / 2 else a1 r)"
  by (simp add: round_angles_to_limits_def Let_def)

lemma round_a2:
  "a2 (round_angles_to_limits tol r) =
     (if \<bar>a2 r + pi / 2\<bar> < tol then - pi / 2
      else if \<bar>a2 r - pi / 2\<bar> < tol then pi / 2 else a2 r)"
  by (simp add: round_angles_to_limits_def Let_def)

lemma update_params_limits:
  "update_params (bx, px, py, th, j1, j2) True r =
     round_angles_to_limits (1 / 10 ^ 9)
       (r\<lparr> body_x := bx, x := px, y := py, theta := wrap_angle th, a1 := j1, a2 := j2 \<rparr>)"
  by (simp add: update_params_def Let_def enforce_angle_range_def)

lemma update_params_fields [simp]:
  "t_interval (update_params v e r) = t_interval r"
  "timestep (update_params v e r) = timestep r"
  by (simp_all add: update_params_def Let_def enforce_angle_range_def split: prod.splits)

lemma update_params_a1:
  "a1 (update_params (bx, px, py, th, j1, j2) True r) =
     (if \<bar>j1 - pi / 2\<bar> < 1 / 10 ^ 9 then pi / 2
      else if \<bar>j1 + pi / 2\<bar> < 1 / 10 ^ 9 then - pi / 2 else j1)"
  by (simp add: update_params_limits round_a1)

lemma update_params_a2:
  "a2 (update_params (bx, px, py, th, j1, j2) True r) =
     (if \<bar>j2 + pi / 2\<bar> < 1 / 10 ^ 9 then - pi / 2
      else if \<bar>j2 - pi / 2\<bar> < 1 / 10 ^ 9 then pi / 2 else j2)"
  by (simp add: update_params_limits round_a2)

lemma update_params_joints:
  assumes "snd (snd (snd (snd v))) = (j1, j2)"
  shows "a1 (update_params v True r) =
           (if \<bar>j1 - pi / 2\<bar> < 1 / 10 ^ 9 then pi / 2
            else if \<bar>j1 + pi / 2\<bar> < 1 / 10 ^ 9 then - pi / 2 else j1)"
    and "a2 (update_params v True r) =
           (if \<bar>j2 + pi / 2\<bar> < 1 / 10 ^ 9 then - pi / 2
            else if \<bar>j2 - pi / 2\<bar> < 1 / 10 ^ 9 then pi / 2 else j2)"
proof -
  obtain bx px py th where v: "v = (bx, px, py, th, j1, j2)"
    using assms by (cases v) auto
  show "a1 (update_params v True r) =
           (if \<bar>j1 - pi / 2\<bar> < 1 / 10 ^ 9 then pi / 2
            else if \<bar>j1 + pi / 2\<bar> < 1 / 10 ^ 9 then - pi / 2 else j1)"
    unfolding v by (rule update_params_a1)
  show "a2 (update_params v True r) =
           (if \<bar>j2 + pi / 2\<bar> < 1 / 10 ^ 9 then - pi / 2
            else if \<bar>j2 - pi / 2\<bar> < 1 / 10 ^ 9 then pi / 2 else j2)"
    unfolding v by (rule update_params_a2)
qed

lemma update_alpha_dots_joints:
  assumes "update_alpha_dots p1 q1 t1 p2 q2 t2 r = Inr r1"
  shows "a1 r1 = a1 r" and "a2 r1 = a2 r"
  using assms
  by (auto simp add: update_alpha_dots_def Let_def split: sum.splits prod.splits if_splits)

lemma update_alpha_dots_total:
  assumes "t_interval r * timestep r \<noteq> 0"
  shows "\<exists>r1. update_alpha_dots p1 q1 t1 p2 q2 t2 r = Inr r1"
  using assms by (simp add: update_alpha_dots_def truediv_def Let_def)

lemma update_alpha_dots_value:
  assumes "t1 + t2 \<noteq> 0" and "t_interval r * timestep r \<noteq> 0"
  shows "update_alpha_dots p1 q1 t1 p2 q2 (Some t2) r =
     Inr (r\<lparr> a1dot := (t1 / (t1 + t2) * p1 + t2 / (t1 + t2) * p2)
                       * (if t1 + t2 < t_interval r + timestep r
                          then (t1 + t2) / (t_interval r * timestep r) else 1),
             a2dot := (t1 / (t1 + t2) * q1 + t2 / (t1 + t2) * q2)
                       * (if t1 + t2 < t_interval r + timestep r
                          then (t1 + t2) / (t_interval r * timestep r) else 1) \<rparr>)"
  using assms by (simp add: update_alpha_dots_def truediv_def Let_def)

lemma store_state_returns:
  assumes "res = Inr r1"
  shows "fst (store_state r res) = Inr (a1 r1, a2 r1)"
    and "snd (store_state r res) = r1\<lparr> state := (a1 r1, a2 r1) \<rparr>"
  using assms by (simp_all add: store_state_def Let_def)

lemma store_state_dots:
  assumes "res = Inr r1"
  shows "a1dot (snd (store_state r res)) = a1dot r1"
    and "a2dot (snd (store_state r res)) = a2dot r1"
    and "a1 (snd (store_state r res)) = a1 r1"
    and "a2 (snd (store_state r res)) = a2 r1"
  using assms by (simp_all add: store_state_def Let_def)

lemma perform_integration_joints_only:
  "perform_integration joints_only_solver (v1, v2) d r =
     (body_x r, x r, y r, theta r, a1 r + v1 * d, a2 r + v2 * d)"
  by (simp add: perform_integration_def joints_only_solver_def)

lemma perform_integration_exact:
  assumes "exact_joints solver"
  shows "snd (snd (snd (snd (perform_integration solver (v1, v2) d r))))
           = (a1 r + v1 * d, a2 r + v2 * d)"
  using assms by (simp add: perform_integration_def exact_joints_def)

lemma joints_only_solver_exact: "exact_joints joints_only_solver"
  by (simp add: exact_joints_def joints_only_solver_def)

section \<open>The paths of a move\<close>

lemma a1_t_total: "- pi / 2 \<le> a1 r \<Longrightarrow> a1 r \<le> pi / 2 \<Longrightarrow> \<exists>s. a1_t v t r = Inr s"
  by (cases "v = 0") (simp_all add: a1_t_def truediv_def Let_def)

lemma a2_t_total: "- pi / 2 \<le> a2 r \<Longrightarrow> a2 r \<le> pi / 2 \<Longrightarrow> \<exists>s. a2_t v t r = Inr s"
  by (cases "v = 0") (simp_all add: a2_t_def truediv_def Let_def)

lemma move_rejects:
  assumes "a1 r < - pi / 2 \<or> pi / 2 < a1 r \<or> a2 r < - pi / 2 \<or> pi / 2 < a2 r"
  shows "move solver action ts True r =
     (Inl (if a1 r < - pi / 2 \<or> pi / 2 < a1 r then OutOfLimit ''a1'' (a1 r)
           else OutOfLimit ''a2'' (a2 r)),
      r\<lparr> timestep := ts \<rparr>)"
  using assms by (auto simp add: move_def Let_def check_angles_def)

lemma move_single:
  assumes "check_angles r = Inr ()"
    and "a1_t v1 (ts * t_interval r) (r\<lparr> timestep := ts \<rparr>) = Inr s1"
    and "a2_t v2 (ts * t_interval r) (r\<lparr> timestep := ts \<rparr>) = Inr s2"
    and "\<bar>s1 - s2\<bar> \<le> 1 / 10 ^ 7"
  shows "move solver (v1, v2) ts True r =
     store_state
       (update_params (perform_integration solver (v1, v2) s1 (r\<lparr> timestep := ts \<rparr>)) True
          (r\<lparr> timestep := ts \<rparr>))
       (update_alpha_dots v1 v2 s1 0 0 None
          (update_params (perform_integration solver (v1, v2) s1 (r\<lparr> timestep := ts \<rparr>)) True
             (r\<lparr> timestep := ts \<rparr>)))"
  using assms by (simp add: move_def Let_def)

lemma move_split_a2_later:
  assumes "check_angles r = Inr ()"
    and "a1_t v1 (ts * t_interval r) (r\<lparr> timestep := ts \<rparr>) = Inr s1"
    and "a2_t v2 (ts * t_interval r) (r\<lparr> timestep := ts \<rparr>) = Inr s2"
    and "\<bar>s1 - s2\<bar> > 1 / 10 ^ 7" and "s2 > s1"
    and "r1 = update_params (perform_integration solver (v1, v2) s1 (r\<lparr> timestep := ts \<rparr>)) True
                (r\<lparr> timestep := ts \<rparr>)"
    and "r2 = update_params (perform_integration solver (0, v2) (s2 - s1) r1) True r1"
  shows "move solver (v1, v2) ts True r =
     store_state r2 (update_alpha_dots v1 v2 s1 0 v2 (Some (s2 - s1)) r2)"
  using assms by (simp add: move_def Let_def min_def)

lemma move_split_a1_later:
  assumes "check_angles r = Inr ()"
    and "a1_t v1 (ts * t_interval r) (r\<lparr> timestep := ts \<rparr>) = Inr s1"
    and "a2_t v2 (ts * t_interval r) (r\<lparr> timestep := ts \<rparr>) = Inr s2"
    and "\<bar>s1 - s2\<bar> > 1 / 10 ^ 7" and "\<not> s2 > s1"
    and "r1 = update_params (perform_integration solver (v1, v2) s2 (r\<lparr> timestep := ts \<rparr>)) True
                (r\<lparr> timestep := ts \<rparr>)"
    and "r2 = update_params (perform_integration solver (v1, 0) (s1 - s2) r1) True r1"
  shows "move solver (v1, v2) ts True r =
     store_state r2 (update_alpha_dots v1 v2 s2 v1 0 (Some (s1 - s2)) r2)"
  using assms by (simp add: move_def Let_def min_def)

lemma store_alpha_returns:
  assumes "t_interval r * timestep r \<noteq> 0"
  shows "\<exists>res. fst (store_state r (update_alpha_dots p1 q1 t1 p2 q2 t2 r)) = Inr res"
proof -
  obtain r1 where "update_alpha_dots p1 q1 t1 p2 q2 t2 r = Inr r1"
    using update_alpha_dots_total [OF assms] by blast
  then show ?thesis
    by (simp add: store_state_def Let_def)
qed

lemma move_returns:
  assumes chk: "check_angles r = Inr ()" and nz: "ts * t_interval r \<noteq> 0"
  shows "\<exists>res. fst (move solver (v1, v2) ts True r) = Inr res"
proof -
  from chk have lim: "- pi / 2 \<le> a1 r" "a1 r \<le> pi / 2" "- pi / 2 \<le> a2 r" "a2 r \<le> pi / 2"
    by (simp_all add: check_angles_Inr)
  obtain s1 where s1: "a1_t v1 (ts * t_interval r) (r\<lparr> timestep := ts \<rparr>) = Inr s1"
    using a1_t_total [of "r\<lparr> timestep := ts \<rparr>"] lim by auto
  obtain s2 where s2: "a2_t v2 (ts * t_interval r) (r\<lparr> timestep := ts \<rparr>) = Inr s2"
    using a2_t_total [of "r\<lparr> timestep := ts \<rparr>"] lim by auto
  have cfg: "t_interval (update_params v True (update_params w True (r\<lparr> timestep := ts \<rparr>)))
               * timestep (update_params v True (update_params w True (r\<lparr> timestep := ts \<rparr>))) \<noteq> 0"
       "t_interval (update_params w True (r\<lparr> timestep := ts \<rparr>))
               * timestep (update_params w True (r\<lparr> timestep := ts \<rparr>)) \<noteq> 0" for v w
    using nz by (simp_all add: mult.commute)
  consider (single) "\<bar>s1 - s2\<bar> \<le> 1 / 10 ^ 7"
    | (a2_later) "\<bar>s1 - s2\<bar> > 1 / 10 ^ 7" "s2 > s1"
    | (a1_later) "\<bar>s1 - s2\<bar> > 1 / 10 ^ 7" "\<not> s2 > s1"
    by linarith
  then show ?thesis
  proof cases
    case single
    show ?thesis
      unfolding move_single [OF chk s1 s2 single] by (rule store_alpha_returns [OF cfg(2)])
  next
    case a2_later
    show ?thesis
      unfolding move_split_a2_later [OF chk s1 s2 a2_later refl refl]
      by (rule store_alpha_returns [OF cfg(1)])
  next
    case a1_later
    show ?thesis
      unfolding move_split_a1_later [OF chk s1 s2 a1_later refl refl]
      by (rule store_alpha_returns [OF cfg(1)])
  qed
qed

section \<open>Joint limits\<close>

text \<open>
  C1. With limit enforcement on and the entry angles within limits, a move that returns
  normally should leave both joint angles in \<open>[-pi/2, pi/2]\<close>. The code decides between one
  and two integrations with the tolerance \<open>1 / 10 ^ 7\<close> on the crossing times and snaps
  to a limit only within \<open>1 / 10 ^ 9\<close>: on the default robot
  (\<open>a1 = -pi/4\<close>, \<open>a2 = pi/4\<close>, \<open>t_interval = 1/4\<close>) the action
  \<open>(0, pi * (1 + 1/5000000))\<close> is integrated once for the full \<open>1/4\<close>, and with any solver
  that is exact on the joint channels the move returns with
  \<open>a2 = pi/2 + pi/20000000\<close>, above the limit; the next limit-enforced move is rejected by
  \<^verbatim>\<open>check_angles\<close>.
\<close>

theorem move_overshoots_upper_limit:
  assumes "exact_joints solver"
  shows "check_angles SwimmingRobot_default = Inr ()
   \<and> fst (move solver (0, pi * (5000001 / 5000000)) 1 True SwimmingRobot_default)
       = Inr (- pi / 4, pi / 2 + pi / 20000000)
   \<and> a2 (snd (move solver (0, pi * (5000001 / 5000000)) 1 True SwimmingRobot_default))
       = pi / 2 + pi / 20000000
   \<and> pi / 2 < a2 (snd (move solver (0, pi * (5000001 / 5000000)) 1 True SwimmingRobot_default))
   \<and> fst (move solver action ts True
            (snd (move solver (0, pi * (5000001 / 5000000)) 1 True SwimmingRobot_default)))
       = Inl (OutOfLimit ''a2'' (pi / 2 + pi / 20000000))"
proof -
  define r where "r = SwimmingRobot_default"
  define r0 where "r0 = r\<lparr> timestep := 1 \<rparr>"
  define w where "w = pi * (5000001 / 5000000)"
  have f: "a1 r0 = - pi / 4" "a2 r0 = pi / 4" "t_interval r0 = 1 / 4" "timestep r0 = 1"
    "t_interval r = 1 / 4"
    by (simp_all add: r0_def r_def SwimmingRobot_default_def SwimmingRobot_def)
  have chk: "check_angles r = Inr ()"
    using pi_ge_two by (simp add: check_angles_def r_def SwimmingRobot_default_def SwimmingRobot_def)
  have s1: "a1_t 0 (1 * t_interval r) r0 = Inr (1 / 4)"
    using pi_ge_two by (simp add: a1_t_def f)
  have q: "(pi / 2 - pi / 4) / w = 1250000 / 5000001"
    using pi_gt_zero by (simp add: w_def field_simps)
  have e2: "pi / 2 < pi / 4 + w * (1 / 4)" "\<not> pi / 4 + w * (1 / 4) < - pi / 2" "w \<noteq> 0"
    using pi_ge_two by (simp_all add: w_def)
  have s2: "a2_t w (1 * t_interval r) r0 = Inr (1250000 / 5000001)"
    using e2 q by (simp add: a2_t_def truediv_def f)
  have tol: "\<bar>(1 / 4 :: real) - 1250000 / 5000001\<bar> \<le> 1 / 10 ^ 7"
    by simp
  define r1 where
    "r1 = update_params (perform_integration solver (0, w) (1 / 4) r0) True r0"
  have mv: "move solver (0, w) 1 True r
              = store_state r1 (update_alpha_dots 0 w (1 / 4) 0 0 None r1)"
    unfolding r1_def r0_def
    by (rule move_single [OF chk s1 [unfolded r0_def] s2 [unfolded r0_def] tol])
  have pj: "snd (snd (snd (snd (perform_integration solver (0, w) (1 / 4) r0))))
              = (- pi / 4, pi / 2 + pi / 20000000)"
    by (simp add: perform_integration_exact [OF assms] f w_def)
  have j1: "a1 r1 = - pi / 4"
    unfolding r1_def update_params_joints(1) [OF pj] using pi_ge_two by simp
  have j2: "a2 r1 = pi / 2 + pi / 20000000"
    unfolding r1_def update_params_joints(2) [OF pj] using pi_ge_two by simp
  have cfg: "t_interval r1 * timestep r1 \<noteq> 0"
    by (simp add: r1_def f)
  obtain r2 where uad: "update_alpha_dots 0 w (1 / 4) 0 0 None r1 = Inr r2"
    using update_alpha_dots_total [OF cfg] by blast
  define r3 where "r3 = snd (move solver (0, w) 1 True r)"
  have ret: "fst (move solver (0, w) 1 True r) = Inr (- pi / 4, pi / 2 + pi / 20000000)"
    using store_state_returns(1) [OF uad, of r1] update_alpha_dots_joints [OF uad]
    by (simp add: mv j1 j2)
  have a3: "a1 r3 = - pi / 4" "a2 r3 = pi / 2 + pi / 20000000"
    using store_state_dots(3,4) [OF uad, of r1] update_alpha_dots_joints [OF uad]
    by (simp_all add: r3_def mv j1 j2)
  have over: "pi / 2 < a2 r3"
    using pi_ge_two by (simp add: a3)
  have inr: "\<not> (a1 r3 < - pi / 2 \<or> pi / 2 < a1 r3)"
    using pi_ge_two by (simp add: a3)
  have nxt: "fst (move solver action ts True r3) = Inl (OutOfLimit ''a2'' (pi / 2 + pi / 20000000))"
    using move_rejects [of r3 solver action ts] over inr by (simp add: a3)
  show ?thesis
    using chk ret a3(2) over nxt unfolding r3_def r_def w_def by simp
qed

theorem move_overshoots_upper_limit_witness:
  "exact_joints joints_only_solver
   \<and> a2 (snd (move joints_only_solver (0, pi * (5000001 / 5000000)) 1 True SwimmingRobot_default))
       = pi / 2 + pi / 20000000"
  using move_overshoots_upper_limit [OF joints_only_solver_exact] joints_only_solver_exact
  by simp

text \<open>
  C2. The crossing time of a joint whose endpoint leaves the range should be
  \<open>(bound - current_angle) / commanded_velocity\<close> with the bound the joint moves toward.
  The code does so for \<open>a1\<close> at the lower limit and \<open>a2\<close> at the upper limit; for \<open>a1\<close>
  above \<open>pi/2\<close> and \<open>a2\<close> below \<open>-pi/2\<close> it puts \<open>0\<close> where the bound belongs. On the
  default robot with nominal duration \<open>1 * (1/4)\<close>, the velocity \<open>4 * pi\<close> for \<open>a1\<close>
  (resp. \<open>-4 * pi\<close> for \<open>a2\<close>) gives the crossing time \<open>1/16\<close>, where the bound
  \<open>pi/2\<close> (resp. \<open>-pi/2\<close>) gives \<open>3/16\<close>.
\<close>

theorem crossing_time_wrong_bound:
  "a1_t (4 * pi) (1 * (1 / 4)) SwimmingRobot_default = Inr (1 / 16)
   \<and> (pi / 2 - a1 SwimmingRobot_default) / (4 * pi) = 3 / 16
   \<and> a2_t (- (4 * pi)) (1 * (1 / 4)) SwimmingRobot_default = Inr (1 / 16)
   \<and> (- pi / 2 - a2 SwimmingRobot_default) / (- (4 * pi)) = 3 / 16"
  using pi_ge_two
  by (simp add: a1_t_def a2_t_def truediv_def SwimmingRobot_default_def SwimmingRobot_def Let_def)

text \<open>
  C8. A joint whose commanded velocity is zero and whose angle is within limits keeps the
  nominal duration as its crossing time: neither chain of \<^verbatim>\<open>move\<close> divides by the zero
  velocity. Moreover a limit-enforced move whose entry angles pass \<^verbatim>\<open>check_angles\<close> and
  whose nominal duration is not zero returns normally, whatever the velocities.
\<close>

theorem zero_velocity_never_divides:
  "(- pi / 2 \<le> a1 r \<and> a1 r \<le> pi / 2 \<longrightarrow> a1_t 0 t r = Inr t)
   \<and> (- pi / 2 \<le> a2 r \<and> a2 r \<le> pi / 2 \<longrightarrow> a2_t 0 t r = Inr t)
   \<and> (check_angles r = Inr () \<and> ts * t_interval r \<noteq> 0
        \<longrightarrow> (\<exists>res. fst (move solver (v1, v2) ts True r) = Inr res))"
proof -
  have "- pi / 2 \<le> a1 r \<and> a1 r \<le> pi / 2 \<longrightarrow> a1_t 0 t r = Inr t"
    by (simp add: a1_t_def)
  moreover have "- pi / 2 \<le> a2 r \<and> a2 r \<le> pi / 2 \<longrightarrow> a2_t 0 t r = Inr t"
    by (simp add: a2_t_def)
  moreover have "check_angles r = Inr () \<and> ts * t_interval r \<noteq> 0
        \<longrightarrow> (\<exists>res. fst (move solver (v1, v2) ts True r) = Inr res)"
    using move_returns by blast
  ultimately show ?thesis by blast
qed

theorem zero_velocity_never_divides_witness:
  "- pi / 2 \<le> a1 SwimmingRobot_default \<and> a1 SwimmingRobot_default \<le> pi / 2
   \<and> a1_t 0 (1 / 4) SwimmingRobot_default = Inr (1 / 4)
   \<and> - pi / 2 \<le> a2 SwimmingRobot_default \<and> a2 SwimmingRobot_default \<le> pi / 2
   \<and> a2_t 0 (1 / 4) SwimmingRobot_default = Inr (1 / 4)
   \<and> check_angles SwimmingRobot_default = Inr ()
   \<and> 1 * t_interval SwimmingRobot_default \<noteq> 0
   \<and> (\<exists>res. fst (move joints_only_solver (0, pi / 2) 1 True SwimmingRobot_default) = Inr res)"
proof -
  have lim: "- pi / 2 \<le> a1 SwimmingRobot_default" "a1 SwimmingRobot_default \<le> pi / 2"
    "- pi / 2 \<le> a2 SwimmingRobot_default" "a2 SwimmingRobot_default \<le> pi / 2"
    using pi_ge_two by (simp_all add: SwimmingRobot_default_def SwimmingRobot_def)
  then have chk: "check_angles SwimmingRobot_default = Inr ()"
    by (simp add: check_angles_Inr)
  have nz: "1 * t_interval SwimmingRobot_default \<noteq> 0"
    by (simp add: SwimmingRobot_default_def SwimmingRobot_def)
  show ?thesis
    using zero_velocity_never_divides
            [of SwimmingRobot_default "1 / 4" 1 joints_only_solver 0 "pi / 2"] lim chk nz
    by blast
qed

section \<open>Realized velocities of a split move\<close>

text \<open>
  C3. After a split move the stored joint velocities should be the time-weighted average
  of the two sub-step actions, scaled by \<open>(t1 + t2) / (t_interval * timestep)\<close> exactly
  when \<open>t1 + t2 < t_interval * timestep\<close>. The code compares \<open>t1 + t2\<close> with
  \<open>t_interval + timestep\<close>. On a robot with \<open>t_interval = 2\<close> moved for \<open>timestep = 3\<close>
  with the action \<open>(-pi/20, pi/8)\<close> the crossing times are \<open>5\<close> and \<open>2\<close>, so
  \<open>t1 = 2\<close>, \<open>t2 = 3\<close> and \<open>t1 + t2 = 5 < 6\<close>: whatever the solver returns, the code
  stores the unscaled averages \<open>-pi/20\<close> and \<open>pi/20\<close>, where the scaled ones are
  \<open>-pi/24\<close> and \<open>pi/24\<close>.
\<close>

theorem split_velocities_unscaled:
  "a1dot (snd (move solver (- pi / 20, pi / 8) 3 True
                 (SwimmingRobot 0 0 0 0 (- pi / 4) (pi / 4) 2 1 2 1))) = - pi / 20
   \<and> a2dot (snd (move solver (- pi / 20, pi / 8) 3 True
                 (SwimmingRobot 0 0 0 0 (- pi / 4) (pi / 4) 2 1 2 1))) = pi / 20
   \<and> (2 * (- pi / 20) + 3 * (- pi / 20)) / (2 + 3) * ((2 + 3) / (2 * 3)) = - pi / 24
   \<and> (2 * (pi / 8) + 3 * 0) / (2 + 3) * ((2 + 3) / (2 * 3)) = pi / 24"
proof -
  define r where "r = SwimmingRobot 0 0 0 0 (- pi / 4) (pi / 4) 2 1 2 1"
  define r0 where "r0 = r\<lparr> timestep := 3 \<rparr>"
  have f: "a1 r0 = - pi / 4" "a2 r0 = pi / 4" "t_interval r0 = 2" "timestep r0 = 3"
    "t_interval r = 2"
    by (simp_all add: r0_def r_def SwimmingRobot_def)
  have chk: "check_angles r = Inr ()"
    using pi_ge_two by (simp add: check_angles_def r_def SwimmingRobot_def)
  have s1: "a1_t (- pi / 20) (3 * t_interval r) r0 = Inr 5"
    using pi_ge_two by (simp add: a1_t_def truediv_def f)
  have s2: "a2_t (pi / 8) (3 * t_interval r) r0 = Inr 2"
    using pi_ge_two by (simp add: a2_t_def truediv_def f)
  have tol: "\<bar>(5 :: real) - 2\<bar> > 1 / 10 ^ 7" and later: "\<not> (2 :: real) > 5"
    by simp_all
  define r1 where
    "r1 = update_params (perform_integration solver (- pi / 20, pi / 8) 2 r0) True r0"
  define r2 where
    "r2 = update_params (perform_integration solver (- pi / 20, 0) (5 - 2) r1) True r1"
  have mv: "move solver (- pi / 20, pi / 8) 3 True r
              = store_state r2
                  (update_alpha_dots (- pi / 20) (pi / 8) 2 (- pi / 20) 0 (Some (5 - 2)) r2)"
    by (rule move_split_a1_later [OF chk s1 [unfolded r0_def] s2 [unfolded r0_def] tol later
          r1_def [unfolded r0_def] r2_def])
  have cfg: "t_interval r2 = 2" "timestep r2 = 3"
    by (simp_all add: r2_def r1_def f)
  have uad: "update_alpha_dots (- pi / 20) (pi / 8) 2 (- pi / 20) 0 (Some (5 - 2)) r2
               = Inr (r2\<lparr> a1dot := - pi / 20, a2dot := pi / 20 \<rparr>)"
    using update_alpha_dots_value [of 2 "5 - 2" r2 "- pi / 20" "pi / 8" "- pi / 20" 0]
    by (simp add: cfg)
  have "a1dot (snd (move solver (- pi / 20, pi / 8) 3 True r)) = - pi / 20"
    and "a2dot (snd (move solver (- pi / 20, pi / 8) 3 True r)) = pi / 20"
    unfolding mv using store_state_dots(1,2) [OF uad, of r2] by simp_all
  then show ?thesis
    unfolding r_def by simp
qed

section \<open>A move that starts outside the limits\<close>

text \<open>
  C4, as the claim states it: the rejected move leaves every field of the robot as it was.
  It does not: \<^verbatim>\<open>self.timestep = timestep\<close> runs before \<^verbatim>\<open>check_angles\<close>. A robot
  built with \<open>timestep = 1\<close> and \<open>a1 = pi\<close>, moved with \<open>timestep = 2\<close>, raises and is
  left with \<open>timestep = 2\<close>.
\<close>

theorem move_out_of_limit_changes_timestep:
  "fst (move joints_only_solver (0, 0) 2 True (SwimmingRobot 0 0 0 0 pi (pi / 4) 2 1 (1 / 4) 1))
      = Inl (OutOfLimit ''a1'' pi)
   \<and> timestep (SwimmingRobot 0 0 0 0 pi (pi / 4) 2 1 (1 / 4) 1) = 1
   \<and> timestep (snd (move joints_only_solver (0, 0) 2 True
                      (SwimmingRobot 0 0 0 0 pi (pi / 4) 2 1 (1 / 4) 1))) = 2
   \<and> snd (move joints_only_solver (0, 0) 2 True (SwimmingRobot 0 0 0 0 pi (pi / 4) 2 1 (1 / 4) 1))
      \<noteq> SwimmingRobot 0 0 0 0 pi (pi / 4) 2 1 (1 / 4) 1"
proof -
  have out: "pi / 2 < a1 (SwimmingRobot 0 0 0 0 pi (pi / 4) 2 1 (1 / 4) 1)"
    using pi_ge_two by (simp add: SwimmingRobot_def)
  then have "move joints_only_solver (0, 0) 2 True (SwimmingRobot 0 0 0 0 pi (pi / 4) 2 1 (1 / 4) 1)
      = (Inl (OutOfLimit ''a1'' pi),
         (SwimmingRobot 0 0 0 0 pi (pi / 4) 2 1 (1 / 4) 1)\<lparr> timestep := 2 \<rparr>)"
    using move_rejects [of "SwimmingRobot 0 0 0 0 pi (pi / 4) 2 1 (1 / 4) 1"
                           joints_only_solver "(0, 0)" 2]
    by (simp add: SwimmingRobot_def)
  then show ?thesis
    by (simp add: SwimmingRobot_def)
qed

text \<open>
  C4, amended. If a joint angle is outside \<open>[-pi/2, pi/2]\<close> when a limit-enforced move
  begins, the call raises the out-of-limit exception, and the robot is left as it was
  except that its \<open>timestep\<close> field holds the \<open>timestep\<close> argument of the call: position,
  heading, joint angles, joint velocities and elapsed time are unchanged.
\<close>

theorem move_out_of_limit_raises:
  assumes "a1 r < - pi / 2 \<or> pi / 2 < a1 r \<or> a2 r < - pi / 2 \<or> pi / 2 < a2 r"
  shows "(\<exists>nm w. fst (move solver action ts True r) = Inl (OutOfLimit nm w))
       \<and> snd (move solver action ts True r) = r\<lparr> timestep := ts \<rparr>"
  unfolding move_rejects [OF assms] by simp

theorem move_out_of_limit_raises_witness:
  "pi / 2 < a1 (SwimmingRobot 0 0 0 0 pi (pi / 4) 2 1 (1 / 4) 1)
   \<and> (\<exists>nm w. fst (move joints_only_solver (0, 0) 2 True
                     (SwimmingRobot 0 0 0 0 pi (pi / 4) 2 1 (1 / 4) 1)) = Inl (OutOfLimit nm w))
   \<and> snd (move joints_only_solver (0, 0) 2 True (SwimmingRobot 0 0 0 0 pi (pi / 4) 2 1 (1 / 4) 1))
       = SwimmingRobot 0 0 0 0 pi (pi / 4) 2 1 (1 / 4) 2"
proof -
  have out: "pi / 2 < a1 (SwimmingRobot 0 0 0 0 pi (pi / 4) 2 1 (1 / 4) 1)"
    using pi_ge_two by (simp add: SwimmingRobot_def)
  have upd: "(SwimmingRobot 0 0 0 0 pi (pi / 4) 2 1 (1 / 4) 1)\<lparr> timestep := 2 \<rparr>
               = SwimmingRobot 0 0 0 0 pi (pi / 4) 2 1 (1 / 4) 2"
    by (simp add: SwimmingRobot_def)
  show ?thesis
    using move_out_of_limit_raises
            [of "SwimmingRobot 0 0 0 0 pi (pi / 4) 2 1 (1 / 4) 1" joints_only_solver "(0, 0)" 2]
          out upd
    by simp
qed

section \<open>The heading\<close>

text \<open>
  C5, as the claim states it: the heading lies in the half-open interval \<open>(-pi, pi]\<close>
  after every committed update. The wrapping code leaves \<open>-pi\<close> alone. A robot with
  heading \<open>-pi\<close> and \<open>a1\<close> at its lower limit, told to push \<open>a1\<close> further down with the
  action \<open>(-1, 0)\<close>, makes a split move (a zero-length first integration, then \<open>1/4\<close>
  with the action \<open>(0, 0)\<close>, under which nothing moves), returns normally and keeps the
  heading \<open>-pi\<close>.
\<close>

theorem move_heading_minus_pi:
  "fst (move joints_only_solver (- 1, 0) 1 True
          (SwimmingRobot 0 0 0 (- pi) (- pi / 2) (pi / 4) 2 1 (1 / 4) 1)) = Inr (- pi / 2, pi / 4)
   \<and> \<not> - pi < theta (snd (move joints_only_solver (- 1, 0) 1 True
          (SwimmingRobot 0 0 0 (- pi) (- pi / 2) (pi / 4) 2 1 (1 / 4) 1)))"
proof -
  define r where "r = SwimmingRobot 0 0 0 (- pi) (- pi / 2) (pi / 4) 2 1 (1 / 4) 1"
  define r0 where "r0 = r\<lparr> timestep := 1 \<rparr>"
  have f: "a1 r0 = - pi / 2" "a2 r0 = pi / 4" "t_interval r0 = 1 / 4" "timestep r0 = 1"
    "t_interval r = 1 / 4" "theta r0 = - pi"
    by (simp_all add: r0_def r_def SwimmingRobot_def)
  have chk: "check_angles r = Inr ()"
    using pi_ge_two by (simp add: check_angles_def r_def SwimmingRobot_def)
  have s1: "a1_t (- 1) (1 * t_interval r) r0 = Inr 0"
    using pi_ge_two by (simp add: a1_t_def truediv_def f)
  have s2: "a2_t 0 (1 * t_interval r) r0 = Inr (1 / 4)"
    using pi_ge_two by (simp add: a2_t_def f)
  have tol: "\<bar>(0 :: real) - 1 / 4\<bar> > 1 / 10 ^ 7" and later: "(1 / 4 :: real) > 0"
    by simp_all
  define r1 where
    "r1 = update_params (perform_integration joints_only_solver (- 1, 0) 0 r0) True r0"
  define r2 where
    "r2 = update_params (perform_integration joints_only_solver (0, 0) (1 / 4 - 0) r1) True r1"
  have mv: "move joints_only_solver (- 1, 0) 1 True r
              = store_state r2 (update_alpha_dots (- 1) 0 0 0 0 (Some (1 / 4 - 0)) r2)"
    by (rule move_split_a2_later [OF chk s1 [unfolded r0_def] s2 [unfolded r0_def] tol later
          r1_def [unfolded r0_def] r2_def])
  have j1: "a1 r1 = - pi / 2" "a2 r1 = pi / 4"
    using pi_ge_two
    by (simp_all add: r1_def perform_integration_joints_only update_params_a1 update_params_a2 f)
  have th1: "theta r1 = - pi"
    by (simp add: r1_def perform_integration_joints_only theta_update_params f wrap_angle_id)
  have j2: "a1 r2 = - pi / 2" "a2 r2 = pi / 4"
    using pi_ge_two
    by (simp_all add: r2_def perform_integration_joints_only update_params_a1 update_params_a2 j1)
  have th2: "theta r2 = - pi"
    by (simp add: r2_def perform_integration_joints_only theta_update_params th1 wrap_angle_id)
  have cfg: "t_interval r2 * timestep r2 \<noteq> 0"
    by (simp add: r2_def r1_def f)
  obtain r3 where uad: "update_alpha_dots (- 1) 0 0 0 0 (Some (1 / 4 - 0)) r2 = Inr r3"
    using update_alpha_dots_total [OF cfg] by blast
  have ret: "fst (move joints_only_solver (- 1, 0) 1 True r) = Inr (- pi / 2, pi / 4)"
    using store_state_returns(1) [OF uad, of r2] update_alpha_dots_joints [OF uad]
    by (simp add: mv j2)
  have th: "theta (snd (move joints_only_solver (- 1, 0) 1 True r)) = - pi"
    by (simp add: mv th2)
  show ?thesis
    using ret th unfolding r_def by simp
qed

text \<open>
  C5, amended. After every move that commits an update (any move without limit
  enforcement, and any limit-enforced move whose entry angles pass \<^verbatim>\<open>check_angles\<close>),
  with any solver, action and entry heading, the heading stored on the robot lies in the
  closed interval \<open>[-pi, pi]\<close>. Since nothing is assumed of the entry state, this holds
  after each call of any sequence of moves.
\<close>

theorem move_theta_closed:
  assumes "enforce_angle_limits \<longrightarrow> check_angles r = Inr ()"
  shows "- pi \<le> theta (snd (move solver action ts enforce_angle_limits r))
       \<and> theta (snd (move solver action ts enforce_angle_limits r)) \<le> pi"
proof (cases enforce_angle_limits)
  case False
  then show ?thesis
    using wrap_angle_range by (simp add: move_def Let_def theta_update_params split: prod.splits)
next
  case True
  with assms have chk: "check_angles r = Inr ()" by simp
  obtain v1 v2 where act: "action = (v1, v2)" by (cases action)
  from chk have lim: "- pi / 2 \<le> a1 r" "a1 r \<le> pi / 2" "- pi / 2 \<le> a2 r" "a2 r \<le> pi / 2"
    by (simp_all add: check_angles_Inr)
  obtain s1 where s1: "a1_t v1 (ts * t_interval r) (r\<lparr> timestep := ts \<rparr>) = Inr s1"
    using a1_t_total [of "r\<lparr> timestep := ts \<rparr>"] lim by auto
  obtain s2 where s2: "a2_t v2 (ts * t_interval r) (r\<lparr> timestep := ts \<rparr>) = Inr s2"
    using a2_t_total [of "r\<lparr> timestep := ts \<rparr>"] lim by auto
  show ?thesis
    using wrap_angle_range
    by (simp add: move_def Let_def True chk act s1 s2 theta_update_params)
qed

theorem move_theta_closed_witness:
  "check_angles SwimmingRobot_default = Inr ()
   \<and> - pi \<le> theta (snd (move joints_only_solver (0, pi / 2) 1 True SwimmingRobot_default))
   \<and> theta (snd (move joints_only_solver (0, pi / 2) 1 True SwimmingRobot_default)) \<le> pi"
proof -
  have chk: "check_angles SwimmingRobot_default = Inr ()"
    using pi_ge_two by (simp add: check_angles_def SwimmingRobot_default_def SwimmingRobot_def)
  show ?thesis
    using move_theta_closed [of True SwimmingRobot_default joints_only_solver "(0, pi / 2)" 1] chk
    by simp
qed

section \<open>Elapsed time\<close>

text \<open>
  C6. A move should advance the elapsed time by the duration it integrated.
  \<^verbatim>\<open>__init__\<close> sets \<^verbatim>\<open>self.time = 0\<close> and \<^verbatim>\<open>move\<close> never assigns the field, where
  the peer \<^verbatim>\<open>DeepRobot.move\<close> has \<^verbatim>\<open>self.time += t\<close>. The first step of the
  demonstration at the end of the source (a robot with \<open>t_interval = 1/2\<close>, the action
  \<open>(0, pi/2)\<close>) integrates once for \<open>1/2\<close>, moves \<open>a2\<close> from \<open>pi/4\<close> to \<open>pi/2\<close>, returns
  normally and leaves the time at \<open>0\<close>, not at \<open>0 + 1/2\<close>.
\<close>

theorem move_does_not_advance_time:
  "a1_t 0 (1 * (1 / 2)) (SwimmingRobot 0 0 0 0 (- pi / 4) (pi / 4) 2 1 (1 / 2) 1) = Inr (1 / 2)
   \<and> a2_t (pi / 2) (1 * (1 / 2)) (SwimmingRobot 0 0 0 0 (- pi / 4) (pi / 4) 2 1 (1 / 2) 1)
       = Inr (1 / 2)
   \<and> fst (move joints_only_solver (0, pi / 2) 1 True
            (SwimmingRobot 0 0 0 0 (- pi / 4) (pi / 4) 2 1 (1 / 2) 1)) = Inr (- pi / 4, pi / 2)
   \<and> time (SwimmingRobot 0 0 0 0 (- pi / 4) (pi / 4) 2 1 (1 / 2) 1) = 0
   \<and> time (snd (move joints_only_solver (0, pi / 2) 1 True
                  (SwimmingRobot 0 0 0 0 (- pi / 4) (pi / 4) 2 1 (1 / 2) 1))) = 0
   \<and> time (snd (move joints_only_solver (0, pi / 2) 1 True
                  (SwimmingRobot 0 0 0 0 (- pi / 4) (pi / 4) 2 1 (1 / 2) 1)))
      \<noteq> time (SwimmingRobot 0 0 0 0 (- pi / 4) (pi / 4) 2 1 (1 / 2) 1) + 1 * (1 / 2)"
proof -
  define r where "r = SwimmingRobot 0 0 0 0 (- pi / 4) (pi / 4) 2 1 (1 / 2) 1"
  define r0 where "r0 = r\<lparr> timestep := 1 \<rparr>"
  have f: "a1 r0 = - pi / 4" "a2 r0 = pi / 4" "t_interval r0 = 1 / 2" "timestep r0 = 1"
    "t_interval r = 1 / 2" "a1 r = - pi / 4" "a2 r = pi / 4" "time r = 0"
    by (simp_all add: r0_def r_def SwimmingRobot_def)
  have chk: "check_angles r = Inr ()"
    using pi_ge_two by (simp add: check_angles_def r_def SwimmingRobot_def)
  have s1: "a1_t 0 (1 * t_interval r) r0 = Inr (1 / 2)"
    using pi_ge_two by (simp add: a1_t_def f)
  have s2: "a2_t (pi / 2) (1 * t_interval r) r0 = Inr (1 / 2)"
    using pi_ge_two by (simp add: a2_t_def f)
  have c1: "a1_t 0 (1 * (1 / 2)) r = Inr (1 / 2)"
    using pi_ge_two by (simp add: a1_t_def f)
  have c2: "a2_t (pi / 2) (1 * (1 / 2)) r = Inr (1 / 2)"
    using pi_ge_two by (simp add: a2_t_def f)
  have tol: "\<bar>(1 / 2 :: real) - 1 / 2\<bar> \<le> 1 / 10 ^ 7"
    by simp
  define r1 where
    "r1 = update_params (perform_integration joints_only_solver (0, pi / 2) (1 / 2) r0) True r0"
  have mv: "move joints_only_solver (0, pi / 2) 1 True r
              = store_state r1 (update_alpha_dots 0 (pi / 2) (1 / 2) 0 0 None r1)"
    unfolding r1_def r0_def
    by (rule move_single [OF chk s1 [unfolded r0_def] s2 [unfolded r0_def] tol])
  have j1: "a1 r1 = - pi / 4"
    using pi_ge_two by (simp add: r1_def perform_integration_joints_only update_params_a1 f)
  have j2: "a2 r1 = pi / 2"
    using pi_ge_two by (simp add: r1_def perform_integration_joints_only update_params_a2 f)
  have cfg: "t_interval r1 * timestep r1 \<noteq> 0"
    by (simp add: r1_def f)
  obtain r2 where uad: "update_alpha_dots 0 (pi / 2) (1 / 2) 0 0 None r1 = Inr r2"
    using update_alpha_dots_total [OF cfg] by blast
  have ret: "fst (move joints_only_solver (0, pi / 2) 1 True r) = Inr (- pi / 4, pi / 2)"
    using store_state_returns(1) [OF uad, of r1] update_alpha_dots_joints [OF uad]
    by (simp add: mv j1 j2)
  have tm: "time (snd (move joints_only_solver (0, pi / 2) 1 True r)) = 0"
    using time_move [of joints_only_solver "(0, pi / 2)" 1 True r] by (simp add: f)
  have t0: "time r = 0"
    by (rule f)
  show ?thesis
    using c1 c2 ret tm t0 unfolding r_def by simp
qed

section \<open>Randomizing the joint state\<close>

text \<open>
  C7. With the opposite-signs flag set, the two returned joint angles should have
  opposite signs. The body of \<^verbatim>\<open>randomize_state\<close> never reads the flag: when both draws
  of the generator are \<open>3/4\<close>, both angles are \<open>pi/4\<close>.
\<close>

theorem randomize_state_ignores_flag:
  "fst (randomize_state (3 / 4) (3 / 4) True r) = (pi / 4, pi / 4)
   \<and> sgn (fst (fst (randomize_state (3 / 4) (3 / 4) True r)))
       = sgn (snd (fst (randomize_state (3 / 4) (3 / 4) True r)))
   \<and> fst (fst (randomize_state (3 / 4) (3 / 4) True r)) \<noteq> 0
   \<and> randomize_state u1 u2 True r = randomize_state u1 u2 False r"
  by (simp add: randomize_state_def uniform_def Let_def)

end
